theory Spec2Isabelle
  imports Complex_Main "HOL-Library.Multiset"
begin

section \<open>The sampler of serve/sampler.cc\<close>

text \<open>
  The embedding follows \<^verbatim>\<open>cpp/serve/sampler.cc\<close> function by function.
  A \<^verbatim>\<open>float\<close> or \<^verbatim>\<open>double\<close> of the source is a \<^typ>\<open>real\<close> here: arithmetic is
  exact, there is no rounding, no infinity and no NaN. Where the source divides by a
  value that can be zero, the model spells the IEEE outcome out (\<open>lt_quot\<close>) or leaves
  the modelled domain with the error \<open>NotANumber\<close>. A row of a probability tensor is a
  \<^typ>\<open>real list\<close>, a two-dimensional tensor a list of rows.

  A failed \<^verbatim>\<open>ICHECK\<close>/\<^verbatim>\<open>CHECK\<close> is the value \<open>Inl Fatal\<close>. An index the source
  uses without a check and that lies outside its array is \<open>Inl OutOfBounds\<close> (undefined
  behaviour in C++). \<open>Inl Overflow\<close> is a signed 64-bit overflow.
\<close>

datatype error = Fatal | OutOfBounds | NotANumber | Overflow

text \<open>An element of the scratch vector \<^verbatim>\<open>std::vector<std::pair<float, int>> data\<close>.\<close>

type_synonym cand = "real \<times> int"

text \<open>
  \<^verbatim>\<open>constexpr double one = 1.0f - 1e-5f\<close> is computed in single precision: the float
  nearest to \<open>1 - 1e-5\<close> is \<open>16777048 / 2^24\<close>. \<^verbatim>\<open>const float eps_ = 1e-5\<close> is the
  float nearest to \<open>1e-5\<close>, \<open>2748779 / 2^38\<close>.
\<close>

definition one :: real where
  "one = 2097131 / 2097152"

definition eps :: real where
  "eps = 2748779 / 274877906944"

text \<open>
  The comparison \<^verbatim>\<open>u < x / y\<close> of the source, for finite \<open>u\<close>. With \<open>y = 0\<close> the IEEE
  quotient is \<open>+inf\<close> for positive \<open>x\<close> (the comparison holds), \<open>-inf\<close> for negative
  \<open>x\<close> and NaN for \<open>x = 0\<close> (it fails); HOL's \<open>x / 0 = 0\<close> would say otherwise.
\<close>

definition lt_quot :: "real \<Rightarrow> real \<Rightarrow> real \<Rightarrow> bool" where
  "lt_quot u x y = (if y = 0 then 0 < x else u < x / y)"

subsection \<open>SampleTopPFromProb: the case top_p = 0 (lines 64-83)\<close>

text \<open>
  The loop of lines 69-74 over the rest of the row, with the loop counter \<open>i\<close> and the
  two variables \<open>max_prob\<close> (initially 0.0) and \<open>argmax_pos\<close> (initially -1).
\<close>

fun argmax_loop :: "real list \<Rightarrow> nat \<Rightarrow> real \<Rightarrow> int \<Rightarrow> int" where
  "argmax_loop [] i max_prob argmax_pos = argmax_pos"
| "argmax_loop (p # ps) i max_prob argmax_pos =
     (if p > max_prob then argmax_loop ps (Suc i) p (int i)
      else argmax_loop ps (Suc i) max_prob argmax_pos)"

text \<open>Lines 78-80: \<^verbatim>\<open>p_output_prob[i] = i == argmax_pos ? 1.0 : 0.0\<close> for \<open>i < ndata\<close>.\<close>

definition one_hot :: "nat \<Rightarrow> int \<Rightarrow> real list" where
  "one_hot ndata argmax_pos = map (\<lambda>i. if int i = argmax_pos then 1 else 0) [0..<ndata]"

subsection \<open>The optional output \<^verbatim>\<open>std::vector<NDArray>* output_prob_dist\<close>\<close>

text \<open>
  The pointer is an option (\<open>None\<close> is \<^verbatim>\<open>nullptr\<close>), the vector a list, and an
  \<^verbatim>\<open>NDArray\<close> that is not defined is \<open>None\<close>.
\<close>

type_synonym prob_dists = "real list option list"

text \<open>
  Lines 58-62: an undefined slot is allocated with \<open>ndata\<close> elements. The source leaves
  the new memory uninitialised; both paths below overwrite all of it before anything
  reads it, so the model fills it with zeros.
\<close>

definition alloc_output :: "nat \<Rightarrow> nat \<Rightarrow> prob_dists option \<Rightarrow> error + prob_dists option" where
  "alloc_output ndata unit_offset output_prob_dist =
     (case output_prob_dist of
        None \<Rightarrow> Inr None
      | Some v \<Rightarrow>
          if unit_offset \<ge> length v then Inl OutOfBounds
          else (case v ! unit_offset of
                  None \<Rightarrow> Inr (Some (v[unit_offset := Some (replicate ndata 0)]))
                | Some old \<Rightarrow> Inr (Some v)))"

text \<open>
  Lines 75-81: the loop writes \<open>ndata\<close> floats through the slot's data pointer, whatever
  the slot's own size is: a shorter slot is written out of bounds, a longer one keeps
  its tail.
\<close>

definition write_output :: "real list \<Rightarrow> nat \<Rightarrow> prob_dists option \<Rightarrow> error + prob_dists option" where
  "write_output new unit_offset output_prob_dist =
     (case output_prob_dist of
        None \<Rightarrow> Inr None
      | Some v \<Rightarrow>
          if unit_offset \<ge> length v then Inl OutOfBounds
          else (case v ! unit_offset of
                  None \<Rightarrow> Inl OutOfBounds
                | Some old \<Rightarrow>
                    if length old < length new then Inl OutOfBounds
                    else Inr (Some (v[unit_offset := Some (new @ drop (length new) old)]))))"

text \<open>
  Lines 85-87: \<^verbatim>\<open>CopyFromBytes(p_prob, ndata * sizeof(float))\<close>. The function belongs
  to the tensor library, which checks that the byte count is the array's size.
\<close>

definition copy_output :: "real list \<Rightarrow> nat \<Rightarrow> prob_dists option \<Rightarrow> error + prob_dists option" where
  "copy_output p_prob unit_offset output_prob_dist =
     (case output_prob_dist of
        None \<Rightarrow> Inr None
      | Some v \<Rightarrow>
          if unit_offset \<ge> length v then Inl OutOfBounds
          else (case v ! unit_offset of
                  None \<Rightarrow> Inl OutOfBounds
                | Some old \<Rightarrow>
                    if length old \<noteq> length p_prob then Inl Fatal
                    else Inr (Some (v[unit_offset := Some p_prob]))))"

subsection \<open>SampleTopPFromProb: the case top_p >= one (lines 89-99)\<close>

fun cdf_loop :: "real \<Rightarrow> real list \<Rightarrow> nat \<Rightarrow> real \<Rightarrow> (real \<times> int) option" where
  "cdf_loop uniform_sample [] i prob_sum = None"
| "cdf_loop uniform_sample (p # ps) i prob_sum =
     (if prob_sum + p \<ge> uniform_sample then Some (p, int i)
      else cdf_loop uniform_sample ps (Suc i) (prob_sum + p))"

subsection \<open>The lambda sample_top_p_with_filter (lines 106-165)\<close>

text \<open>
  Lines 109-120: the filter loop over the rest of the row, with the counter \<open>i\<close>, the
  running \<open>cutoff_sum\<close> and the vector \<open>data\<close> built so far.
\<close>

fun filter_loop :: "real \<Rightarrow> real list \<Rightarrow> nat \<Rightarrow> real \<Rightarrow> cand list \<Rightarrow> cand list" where
  "filter_loop cuttoff [] i cutoff_sum data = data"
| "filter_loop cuttoff (p # ps) i cutoff_sum data =
     (if p \<ge> cuttoff then
        (if cutoff_sum + p > 1 - cuttoff then data @ [(p, int i)]
         else filter_loop cuttoff ps (Suc i) (cutoff_sum + p) (data @ [(p, int i)]))
      else filter_loop cuttoff ps (Suc i) cutoff_sum data)"


text \<open>One sort that does so: the insertion sort of the list library, on negated keys.\<close>

definition insertion_sort_desc :: "cand list \<Rightarrow> cand list" where
  "insertion_sort_desc xs = sort_key (\<lambda>c. - fst c) xs"

text \<open>
  Lines 138-150: the loop that computes \<open>top_p_sum\<close> and overwrites the first component
  of every element it passes with the cumulative sum. It returns \<open>cum_sum_prob\<close>,
  \<open>top_p_sum\<close> and the vector after the loop.
\<close>

fun top_p_sum_loop :: "real \<Rightarrow> cand list \<Rightarrow> real \<Rightarrow> real \<Rightarrow> real \<times> real \<times> cand list" where
  "top_p_sum_loop top_p [] cum_sum_prob top_p_sum = (cum_sum_prob, top_p_sum, [])"
| "top_p_sum_loop top_p ((prob, idx) # rest) cum_sum_prob top_p_sum =
     (if cum_sum_prob < top_p then
        (case top_p_sum_loop top_p rest (cum_sum_prob + prob) (top_p_sum + prob) of
           (c, t, rest') \<Rightarrow> (c, t, (cum_sum_prob + prob, idx) # rest'))
      else (cum_sum_prob, top_p_sum, (prob, idx) # rest))"

text \<open>
  Lines 156-162: the selection loop. \<open>Inl\<close> is the pair it returns from inside the
  loop, \<open>Inr\<close> the value of \<open>last_cum_sum_prob\<close> when the loop runs to its end.
\<close>

fun select_loop :: "real \<Rightarrow> real \<Rightarrow> cand list \<Rightarrow> real \<Rightarrow> (real \<times> int) + real" where
  "select_loop uniform_sample top_p_sum [] last_cum_sum_prob = Inr last_cum_sum_prob"
| "select_loop uniform_sample top_p_sum ((c, idx) # rest) last_cum_sum_prob =
     (if lt_quot uniform_sample c top_p_sum then Inl (c - last_cum_sum_prob, idx)
      else select_loop uniform_sample top_p_sum rest c)"

text \<open>
  The lambda. The vector \<open>data\<close> is \<^verbatim>\<open>thread_local\<close>: it keeps its contents between
  calls on one thread, so the lambda takes the contents it finds and returns the
  contents it leaves, next to the pair it returns. \<open>(-1, -1)\<close> is the pair that
  marks a pass with no selection.
\<close>

definition sample_top_p_with_filter ::
  "(cand list \<Rightarrow> cand list) \<Rightarrow> real list \<Rightarrow> real \<Rightarrow> real \<Rightarrow> real \<Rightarrow> cand list
     \<Rightarrow> (real \<times> int) \<times> cand list" where
  "sample_top_p_with_filter std_sort p_prob top_p uniform_sample cuttoff data0 =
     (let data = filter_loop cuttoff p_prob 0 0 [] in
      if data = [] then ((-1, -1), data)
      else
        let data = std_sort data in
        if uniform_sample < fst (data ! 0) / top_p then ((fst (data ! 0), snd (data ! 0)), data)
        else
          (case top_p_sum_loop top_p data 0 0 of
             (cum_sum_prob, top_p_sum, data) \<Rightarrow>
               if cum_sum_prob < top_p \<and> cuttoff \<noteq> 0 then ((-1, -1), data)
               else
                 (case select_loop uniform_sample top_p_sum data 0 of
                    Inl r \<Rightarrow> (r, data)
                  | Inr last_cum_sum_prob \<Rightarrow>
                      ((fst (last data) - last_cum_sum_prob, snd (last data)), data))))"

subsection \<open>SampleTopPFromProb (lines 35-180)\<close>

text \<open>
  What a call returns and leaves behind: the returned pair, the output vector behind
  the pointer \<open>output_prob_dist\<close>, and the contents of the thread's scratch vector.
\<close>

record sample_out =
  result :: "real \<times> int"
  out_dist :: "prob_dists option"
  scratch :: "cand list"

text \<open>Lines 175-179: the pass with cutoff 0 and the check of its result.\<close>

definition fallback_full_prob ::
  "(cand list \<Rightarrow> cand list) \<Rightarrow> real list \<Rightarrow> real \<Rightarrow> real \<Rightarrow> prob_dists option \<Rightarrow> cand list
     \<Rightarrow> error + sample_out" where
  "fallback_full_prob std_sort p_prob top_p uniform_sample opd data0 =
     (case sample_top_p_with_filter std_sort p_prob top_p uniform_sample 0 data0 of
        (sampled_index, data) \<Rightarrow>
          if snd sampled_index \<ge> 0
          then Inr \<lparr>result = sampled_index, out_dist = opd, scratch = data\<rparr>
          else Inl Fatal)"

text \<open>
  The function. The checks of lines 44-51 (contiguous, 32-bit floats, copy to the host)
  concern the memory layout and are not modelled. \<open>unit_offset\<close> selects the row.
\<close>

definition SampleTopPFromProb ::
  "(cand list \<Rightarrow> cand list) \<Rightarrow> cand list \<Rightarrow> real list list \<Rightarrow> nat \<Rightarrow> real \<Rightarrow> real
     \<Rightarrow> prob_dists option \<Rightarrow> error + sample_out" where
  "SampleTopPFromProb std_sort data0 prob unit_offset top_p uniform_sample output_prob_dist =
     (if unit_offset \<ge> length prob then Inl OutOfBounds
      else
        let p_prob = prob ! unit_offset; ndata = length p_prob in
        case alloc_output ndata unit_offset output_prob_dist of
          Inl e \<Rightarrow> Inl e
        | Inr opd \<Rightarrow>
            if top_p = 0 then
              (let argmax_pos = argmax_loop p_prob 0 0 (-1) in
               case write_output (one_hot ndata argmax_pos) unit_offset opd of
                 Inl e \<Rightarrow> Inl e
               | Inr opd' \<Rightarrow> Inr \<lparr>result = (1, argmax_pos), out_dist = opd', scratch = data0\<rparr>)
            else
              (case copy_output p_prob unit_offset opd of
                 Inl e \<Rightarrow> Inl e
               | Inr opd' \<Rightarrow>
                   if top_p \<ge> one then
                     (case cdf_loop uniform_sample p_prob 0 0 of
                        Some r \<Rightarrow> Inr \<lparr>result = r, out_dist = opd', scratch = data0\<rparr>
                      | None \<Rightarrow> Inl Fatal)
                   else if top_p < 1 then
                     (case sample_top_p_with_filter std_sort p_prob top_p uniform_sample
                             (top_p / 1024) data0 of
                        (sampled_index, data) \<Rightarrow>
                          if snd sampled_index \<ge> 0
                          then Inr \<lparr>result = sampled_index, out_dist = opd', scratch = data\<rparr>
                          else fallback_full_prob std_sort p_prob top_p uniform_sample opd' data)
                   else fallback_full_prob std_sort p_prob top_p uniform_sample opd' data0))"

subsection \<open>The collaborators of the sampler\<close>

text \<open>
  \<^verbatim>\<open>GenerationConfig\<close>: the two fields the sampler reads.
\<close>

record GenerationConfig =
  cfg_temperature :: real
  cfg_top_p :: real

text \<open>
  Modelled from the spec: the random generator of \<^verbatim>\<open>random.h\<close> is not part of the
  sources. The spec says of it that it supplies one uniform draw per sampling decision.
  A generator is the sequence of its draws and the number of draws made so far;
  \<^verbatim>\<open>GetRandomNumber\<close> returns the next draw and advances.
\<close>

record RandomGenerator =
  draws :: "nat \<Rightarrow> real"
  consumed :: nat

definition GetRandomNumber :: "RandomGenerator \<Rightarrow> real \<times> RandomGenerator" where
  "GetRandomNumber g = (draws g (consumed g), g\<lparr>consumed := Suc (consumed g)\<rparr>)"

text \<open>
  Modelled from the spec: \<^verbatim>\<open>RequestModelState::CommitToken\<close> is not part of the
  sources. The spec calls the model state the object that stores each request's
  committed token history: a state is the list of its committed tokens, and committing
  a token appends it.
\<close>

definition CommitToken :: "int list \<Rightarrow> int \<Rightarrow> int list" where
  "CommitToken mstate token_id = mstate @ [token_id]"

text \<open>
  The device of a tensor: the host (\<^verbatim>\<open>kDLCPU\<close>) or any other device. A tensor of
  shape \<open>(n, v)\<close>: its device, \<open>v\<close> (\<open>shape[1]\<close>) and its \<open>n\<close> rows; \<open>well_shaped\<close>
  says that every row has \<open>v\<close> elements, as every row of a tensor has.
\<close>

datatype DLDeviceType = kDLCPU | kDLAccelerator

record NDArray =
  device_type :: DLDeviceType
  shape1 :: nat
  tensor_rows :: "real list list"

definition well_shaped :: "NDArray \<Rightarrow> bool" where
  "well_shaped a = list_all (\<lambda>r. length r = shape1 a) (tensor_rows a)"

subsection \<open>CPUSampler::CopyProbsToCPU (lines 330-351)\<close>

text \<open>
  The sampler object. Of the member \<^verbatim>\<open>probs_host_\<close> only the shape matters, since
  every call overwrites the rows it returns: \<open>None\<close> is the \<^verbatim>\<open>NDArray\<close> that is not
  defined, \<open>Some (r, v)\<close> an allocation of \<open>r\<close> rows and \<open>v\<close> columns.
\<close>

record CPUSampler =
  probs_host_shape :: "(int \<times> int) option"

text \<open>
  Lines 340-342: \<^verbatim>\<open>while (init_size < num_tokens) init_size *= 2\<close> on 64-bit signed
  integers. The loop does not end when \<open>init_size\<close> is 0, so its result is an option.
\<close>

partial_function (option) double_until :: "int \<Rightarrow> int \<Rightarrow> (error + int) option" where
  "double_until init_size num_tokens =
     (if init_size < num_tokens then
        (if init_size * 2 > 2 ^ 63 - 1 \<or> init_size * 2 < - (2 ^ 63) then Some (Inl Overflow)
         else double_until (init_size * 2) num_tokens)
      else Some (Inr init_size))"

declare double_until.simps [code]

text \<open>
  The function returns the view of the host buffer, which holds the rows of the input
  after the copy, and the sampler with its member updated.
\<close>

definition CopyProbsToCPU ::
  "CPUSampler \<Rightarrow> NDArray \<Rightarrow> (error + real list list \<times> CPUSampler) option" where
  "CopyProbsToCPU this probs_device =
     (if device_type probs_device = kDLCPU then Some (Inl Fatal)
      else if (case probs_host_shape this of
                 None \<Rightarrow> False
               | Some (r, v) \<Rightarrow> v \<noteq> int (shape1 probs_device)) then Some (Inl Fatal)
      else
        let init_size0 = (case probs_host_shape this of None \<Rightarrow> 32 | Some (r, v) \<Rightarrow> r);
            num_tokens = int (length (tensor_rows probs_device));
            vocab_size = int (shape1 probs_device)
        in case double_until init_size0 num_tokens of
             None \<Rightarrow> None
           | Some (Inl e) \<Rightarrow> Some (Inl e)
           | Some (Inr init_size) \<Rightarrow>
               let this' = (case probs_host_shape this of
                              None \<Rightarrow> this\<lparr>probs_host_shape := Some (init_size, vocab_size)\<rparr>
                            | Some (r, v) \<Rightarrow>
                                if init_size \<noteq> r
                                then this\<lparr>probs_host_shape := Some (init_size, vocab_size)\<rparr>
                                else this)
               in if (case probs_host_shape this' of
                        None \<Rightarrow> True
                      | Some (r, v) \<Rightarrow> num_tokens > r) then Some (Inl Fatal)
                  else Some (Inr (tensor_rows probs_device, this')))"

text \<open>
  A sequence of calls of \<open>CopyProbsToCPU\<close> on one sampler, as the batch entry points
  make them: it stops at the first call that fails.
\<close>

fun copy_calls :: "CPUSampler \<Rightarrow> NDArray list \<Rightarrow> (error + CPUSampler) option" where
  "copy_calls this [] = Some (Inr this)"
| "copy_calls this (d # ds) =
     (case CopyProbsToCPU this d of
        None \<Rightarrow> None
      | Some (Inl e) \<Rightarrow> Some (Inl e)
      | Some (Inr (view, this')) \<Rightarrow> copy_calls this' ds)"

subsection \<open>The parallel loop\<close>

text \<open>
  \<^verbatim>\<open>parallel_for_with_threading_backend(f, 0, n)\<close> runs \<open>f i\<close> once for every
  \<open>i < n\<close>, each on some worker thread. A schedule is the list of the pairs (worker,
  index) in the order in which the tasks run; \<open>is_schedule n\<close> says that every index
  below \<open>n\<close> occurs once, which is what the theorems assume of a schedule. A task that fails ends the call. Tasks are run one after the
  other: the model has no interleaving inside a task.
\<close>

fun parallel_for :: "(nat \<Rightarrow> nat \<Rightarrow> 's \<Rightarrow> error + 's) \<Rightarrow> (nat \<times> nat) list \<Rightarrow> 's \<Rightarrow> error + 's" where
  "parallel_for f [] s = Inr s"
| "parallel_for f ((w, i) # sched) s =
     (case f w i s of Inl e \<Rightarrow> Inl e | Inr s' \<Rightarrow> parallel_for f sched s')"


subsection \<open>CPUSampler::BatchSampleTokens (lines 196-242)\<close>

text \<open>
  What the tasks of the parallel loop read and write: the generators (one object per
  row), the three output vectors, and the scratch vector of every worker thread.
\<close>

record sample_state =
  bs_rngs :: "RandomGenerator list"
  bs_tokens :: "int list"
  bs_dists :: "prob_dists option"
  bs_token_probs :: "real list option"
  bs_scratch :: "nat \<Rightarrow> cand list"

text \<open>
  Lines 227-238, the task of row \<open>i\<close> on worker \<open>w\<close>. \<^verbatim>\<open>generation_cfg\<close> is an
  \<^verbatim>\<open>Array\<close> of the tensor library, whose index operator checks its bounds; \<open>rngs\<close> and
  the outputs are \<^verbatim>\<open>std::vector\<close>s, whose index operator does not. The token is stored
  as a 32-bit integer; the model keeps the index as it is.
\<close>

definition sample_task ::
  "(cand list \<Rightarrow> cand list) \<Rightarrow> real list list \<Rightarrow> GenerationConfig list \<Rightarrow> nat \<Rightarrow> nat
     \<Rightarrow> sample_state \<Rightarrow> error + sample_state" where
  "sample_task std_sort probs_host generation_cfg w i s =
     (if i \<ge> length generation_cfg then Inl Fatal
      else if i \<ge> length (bs_rngs s) \<or> i \<ge> length (bs_tokens s)
              \<or> (case bs_token_probs s of None \<Rightarrow> False | Some v \<Rightarrow> i \<ge> length v)
      then Inl OutOfBounds
      else
        case GetRandomNumber (bs_rngs s ! i) of
          (u, g) \<Rightarrow>
            (case SampleTopPFromProb std_sort (bs_scratch s w) probs_host i
                    (if cfg_temperature (generation_cfg ! i) < eps then 0
                     else cfg_top_p (generation_cfg ! i))
                    u (bs_dists s) of
               Inl e \<Rightarrow> Inl e
             | Inr sample_result \<Rightarrow>
                 Inr \<lparr>bs_rngs = (bs_rngs s)[i := g],
                      bs_tokens = (bs_tokens s)[i := snd (result sample_result)],
                      bs_dists = out_dist sample_result,
                      bs_token_probs =
                        map_option (\<lambda>v. v[i := fst (result sample_result)]) (bs_token_probs s),
                      bs_scratch = (bs_scratch s)(w := scratch sample_result)\<rparr>))"

text \<open>\<^verbatim>\<open>std::vector::resize(n)\<close>: the first \<open>n\<close> elements stay, new ones are \<open>x\<close>.\<close>

definition resize :: "nat \<Rightarrow> 'a \<Rightarrow> 'a list \<Rightarrow> 'a list" where
  "resize n x v = take n v @ replicate (n - length v) x"

text \<open>
  The function, for a given schedule of the parallel loop and given scratch vectors of
  the worker threads. The tensor is two-dimensional by its type, so the check of line
  204 has no counterpart. The result is the returned vector \<open>sampled_tokens\<close> with
  everything the call has changed: the generators, the two optional outputs, the
  scratch vectors and the sampler object.
\<close>

definition BatchSampleTokens ::
  "(cand list \<Rightarrow> cand list) \<Rightarrow> (nat \<times> nat) list \<Rightarrow> (nat \<Rightarrow> cand list) \<Rightarrow> CPUSampler \<Rightarrow> NDArray
     \<Rightarrow> string list \<Rightarrow> GenerationConfig list \<Rightarrow> RandomGenerator list
     \<Rightarrow> prob_dists option \<Rightarrow> real list option
     \<Rightarrow> (error + sample_state \<times> CPUSampler) option" where
  "BatchSampleTokens std_sort sched scratch0 this probs_device request_ids generation_cfg rngs
       output_prob_dist output_token_probs =
     (case CopyProbsToCPU this probs_device of
        None \<Rightarrow> None
      | Some (Inl e) \<Rightarrow> Some (Inl e)
      | Some (Inr (probs_host, this')) \<Rightarrow>
          let n = length probs_host in
          if n \<noteq> length request_ids \<or> n \<noteq> length generation_cfg \<or> n \<noteq> length rngs
          then Some (Inl Fatal)
          else
            (case parallel_for (sample_task std_sort probs_host generation_cfg) sched
                    \<lparr>bs_rngs = rngs,
                     bs_tokens = replicate n 0,
                     bs_dists = map_option (resize n None) output_prob_dist,
                     bs_token_probs = map_option (resize n 0) output_token_probs,
                     bs_scratch = scratch0\<rparr> of
               Inl e \<Rightarrow> Some (Inl e)
             | Inr s \<Rightarrow> Some (Inr (s, this'))))"

subsection \<open>CPUSampler::BatchVerifyDraftTokens (lines 244-326)\<close>

text \<open>The arguments that the tasks only read.\<close>

record verify_args =
  cum_verify_lengths :: "int list"
  generation_cfg :: "GenerationConfig list"
  draft_output_tokens :: "int list list"
  draft_output_token_prob :: "real list list"
  draft_output_prob_dist :: "real list list list"

text \<open>
  What the tasks read and write: the rows of the host buffer, the generators, the model
  states of the requests, the vector \<open>accepted_tokens\<close> and the scratch vectors.
\<close>

record verify_state =
  vs_probs :: "real list list"
  vs_rngs :: "RandomGenerator list"
  vs_mstates :: "int list list"
  vs_accepted :: "int list list"
  vs_scratch :: "nat \<Rightarrow> cand list"

text \<open>
  \<^verbatim>\<open>request_mstates[i]->CommitToken(committed)\<close> followed by
  \<^verbatim>\<open>accepted_tokens[i].push_back(reported)\<close>. \<^verbatim>\<open>request_mstates\<close> is an \<^verbatim>\<open>Array\<close>
  of the tensor library, whose index operator checks its bounds.
\<close>

definition commit_and_report ::
  "nat \<Rightarrow> int \<Rightarrow> int \<Rightarrow> verify_state \<Rightarrow> error + verify_state" where
  "commit_and_report i committed reported s =
     (if i \<ge> length (vs_mstates s) then Inl Fatal
      else if i \<ge> length (vs_accepted s) then Inl OutOfBounds
      else Inr (s\<lparr>vs_mstates := (vs_mstates s)[i := CommitToken (vs_mstates s ! i) committed],
                 vs_accepted := (vs_accepted s)[i := vs_accepted s ! i @ [reported]]\<rparr>))"

text \<open>Lines 303-306: the row \<open>max(p_probs[j] - p_qdist[j], 0)\<close>, whose sum is \<open>sum_v\<close>.\<close>

definition residual :: "real list \<Rightarrow> real list \<Rightarrow> real list" where
  "residual p_probs p_qdist = map (\<lambda>(p, q). max (p - q) 0) (zip p_probs p_qdist)"

datatype flow = Continue | Break

text \<open>
  Lines 277-320: the body of the loop over the draft positions of sequence \<open>i\<close>, at
  position \<open>cur_token_idx\<close>. It ends with \<^verbatim>\<open>continue\<close> or with \<^verbatim>\<open>break\<close>. The row of the
  host buffer has \<open>vocab_size\<close> elements. When \<open>sum_v\<close> is 0 the division of lines
  307-309 is \<open>0 / 0\<close> in every element, which is NaN.
\<close>

definition verify_position ::
  "(cand list \<Rightarrow> cand list) \<Rightarrow> verify_args \<Rightarrow> nat \<Rightarrow> nat \<Rightarrow> int \<Rightarrow> nat \<Rightarrow> verify_state
     \<Rightarrow> error + flow \<times> verify_state" where
  "verify_position std_sort a w i verify_start cur_token_idx s =
     (let row = verify_start + int cur_token_idx in
      if row < 0 \<or> nat row \<ge> length (vs_probs s)
         \<or> i \<ge> length (draft_output_tokens a)
         \<or> cur_token_idx \<ge> length (draft_output_tokens a ! i)
         \<or> i \<ge> length (draft_output_token_prob a)
         \<or> cur_token_idx \<ge> length (draft_output_token_prob a ! i)
      then Inl OutOfBounds
      else
        let p_probs = vs_probs s ! nat row;
            cur_token = draft_output_tokens a ! i ! cur_token_idx;
            q_value = draft_output_token_prob a ! i ! cur_token_idx
        in
        if cur_token < 0 \<or> nat cur_token \<ge> length p_probs then Inl OutOfBounds
        else
          let p_value = p_probs ! nat cur_token in
          if p_value \<ge> q_value
          then map_sum id (Pair Continue) (commit_and_report i cur_token cur_token s)
          else if i \<ge> length (vs_rngs s) then Inl OutOfBounds
          else
            case GetRandomNumber (vs_rngs s ! i) of
              (r, g) \<Rightarrow>
                if lt_quot r p_value (q_value + eps)
                then map_sum id (Pair Continue)
                       (commit_and_report i cur_token cur_token
                          (s\<lparr>vs_rngs := (vs_rngs s)[i := g]\<rparr>))
                else if i \<ge> length (draft_output_prob_dist a)
                        \<or> cur_token_idx \<ge> length (draft_output_prob_dist a ! i)
                then Inl OutOfBounds
                else
                  let q_dist = draft_output_prob_dist a ! i ! cur_token_idx in
                  if length q_dist \<noteq> length p_probs then Inl Fatal
                  else
                    let sum_v = sum_list (residual p_probs q_dist) in
                    if sum_v = 0 \<and> p_probs \<noteq> [] then Inl NotANumber
                    else
                      let probs' = (vs_probs s)
                            [nat row := map (\<lambda>x. x / sum_v) (residual p_probs q_dist)]
                      in
                      if i \<ge> length (generation_cfg a) then Inl Fatal
                      else
                        case GetRandomNumber g of
                          (u, g') \<Rightarrow>
                            (case SampleTopPFromProb std_sort (vs_scratch s w) probs' (nat row)
                                    (if cfg_temperature (generation_cfg a ! i) < eps then 0
                                     else cfg_top_p (generation_cfg a ! i))
                                    u None of
                               Inl e \<Rightarrow> Inl e
                             | Inr sample_result \<Rightarrow>
                                 map_sum id (Pair Break)
                                   (commit_and_report i (snd (result sample_result)) cur_token
                                      (s\<lparr>vs_probs := probs',
                                         vs_rngs := (vs_rngs s)[i := g'],
                                         vs_scratch :=
                                           (vs_scratch s)(w := scratch sample_result)\<rparr>))))"

text \<open>
  Line 276: the loop over the draft positions, from \<open>cur_token_idx\<close>, with \<open>n\<close>
  positions left.
\<close>

fun verify_positions ::
  "(cand list \<Rightarrow> cand list) \<Rightarrow> verify_args \<Rightarrow> nat \<Rightarrow> nat \<Rightarrow> int \<Rightarrow> nat \<Rightarrow> nat \<Rightarrow> verify_state
     \<Rightarrow> error + verify_state" where
  "verify_positions std_sort a w i verify_start cur_token_idx 0 s = Inr s"
| "verify_positions std_sort a w i verify_start cur_token_idx (Suc n) s =
     (case verify_position std_sort a w i verify_start cur_token_idx s of
        Inl e \<Rightarrow> Inl e
      | Inr (Continue, s') \<Rightarrow> verify_positions std_sort a w i verify_start (Suc cur_token_idx) n s'
      | Inr (Break, s') \<Rightarrow> Inr s')"

text \<open>Lines 273-322: the task of sequence \<open>i\<close> on worker \<open>w\<close>.\<close>

definition verify_task ::
  "(cand list \<Rightarrow> cand list) \<Rightarrow> verify_args \<Rightarrow> nat \<Rightarrow> nat \<Rightarrow> verify_state \<Rightarrow> error + verify_state" where
  "verify_task std_sort a w i s =
     (if Suc i \<ge> length (cum_verify_lengths a) then Inl OutOfBounds
      else
        let verify_start = cum_verify_lengths a ! i;
            verify_end = cum_verify_lengths a ! Suc i
        in verify_positions std_sort a w i verify_start 0 (nat (verify_end - verify_start)) s)"

text \<open>
  The function, for a given schedule and given scratch vectors. \<open>num_sequence\<close> is
  \<open>cum_verify_lengths.size() - 1\<close>; the checks of lines 260-263 compare it with the
  sizes of four vectors. The result is the returned vector \<open>accepted_tokens\<close> with
  everything the call has changed.
\<close>

definition BatchVerifyDraftTokens ::
  "(cand list \<Rightarrow> cand list) \<Rightarrow> (nat \<times> nat) list \<Rightarrow> (nat \<Rightarrow> cand list) \<Rightarrow> CPUSampler \<Rightarrow> NDArray
     \<Rightarrow> verify_args \<Rightarrow> int list list \<Rightarrow> RandomGenerator list
     \<Rightarrow> (error + verify_state \<times> CPUSampler) option" where
  "BatchVerifyDraftTokens std_sort sched scratch0 this probs_device a request_mstates rngs =
     (case CopyProbsToCPU this probs_device of
        None \<Rightarrow> None
      | Some (Inl e) \<Rightarrow> Some (Inl e)
      | Some (Inr (probs_host, this')) \<Rightarrow>
          let num_sequence = int (length (cum_verify_lengths a)) - 1 in
          if int (length rngs) \<noteq> num_sequence
             \<or> int (length (draft_output_tokens a)) \<noteq> num_sequence
             \<or> int (length (draft_output_token_prob a)) \<noteq> num_sequence
             \<or> int (length (draft_output_prob_dist a)) \<noteq> num_sequence
          then Some (Inl Fatal)
          else
            (case parallel_for (verify_task std_sort a) sched
                    \<lparr>vs_probs = probs_host,
                     vs_rngs = rngs,
                     vs_mstates = request_mstates,
                     vs_accepted = replicate (nat num_sequence) [],
                     vs_scratch = scratch0\<rparr> of
               Inl e \<Rightarrow> Some (Inl e)
             | Inr s \<Rightarrow> Some (Inr (s, this'))))"

subsection \<open>Notions of the specification\<close>

text \<open>
  A distribution row: no negative element, and the elements sum to 1.
\<close>

definition is_distribution :: "real list \<Rightarrow> bool" where
  "is_distribution row = ((\<forall>x \<in> set row. 0 \<le> x) \<and> sum_list row = 1)"

text \<open>
  The output vector is ready for row \<open>unit_offset\<close> of width \<open>ndata\<close>: there is none,
  or it has a slot for the row which is not defined yet or has the row's width.
\<close>

definition output_ready :: "nat \<Rightarrow> nat \<Rightarrow> prob_dists option \<Rightarrow> bool" where
  "output_ready ndata unit_offset output_prob_dist =
     (case output_prob_dist of
        None \<Rightarrow> True
      | Some v \<Rightarrow> unit_offset < length v \<and>
          (case v ! unit_offset of None \<Rightarrow> True | Some old \<Rightarrow> length old = ndata))"

text \<open>
  A tensor that \<open>CopyProbsToCPU\<close> takes into a buffer of width \<open>v\<close>: it is not on the
  host, its width is \<open>v\<close>, and it has at most \<open>2^62\<close> rows, so that doubling a row
  count below its own stays within 64 bits.
\<close>

definition usable :: "nat \<Rightarrow> NDArray \<Rightarrow> bool" where
  "usable v d =
     (device_type d \<noteq> kDLCPU \<and> shape1 d = v \<and> int (length (tensor_rows d)) \<le> 2 ^ 62)"

text \<open>
  The pairs (probability, index) of a row whose first element has index \<open>i\<close>, and
  the candidates of a row for a cutoff \<open>c\<close>: the pairs of all elements that are at
  least \<open>c\<close>, in the order of the row.
\<close>

definition indexed :: "nat \<Rightarrow> real list \<Rightarrow> cand list" where
  "indexed i ps = zip ps (map int [i..<i + length ps])"





text \<open>
  Two results have the same outcome under an observation: both are errors, or both are
  states that the observation does not tell apart.
\<close>

definition same_outcome :: "('s \<Rightarrow> 'b) \<Rightarrow> error + 's \<Rightarrow> error + 's \<Rightarrow> bool" where
  "same_outcome observe r1 r2 =
     (case r1 of
        Inl e1 \<Rightarrow> (case r2 of Inl e2 \<Rightarrow> True | Inr t \<Rightarrow> False)
      | Inr s \<Rightarrow> (case r2 of Inl e2 \<Rightarrow> False | Inr t \<Rightarrow> observe s = observe t))"





section \<open>Properties\<close>

subsection \<open>The case top_p = 0\<close>

lemma argmax_loop_keep:
  "\<forall>x \<in> set ps. x \<le> m \<Longrightarrow> argmax_loop ps i m a = a"
  by (induction ps arbitrary: i) auto

lemma argmax_loop_first_max:
  "\<exists>x \<in> set ps. m < x \<Longrightarrow>
     \<exists>k < length ps. argmax_loop ps i m a = int (i + k) \<and> m < ps ! k \<and>
        (\<forall>j < length ps. ps ! j \<le> ps ! k) \<and> (\<forall>j < k. ps ! j < ps ! k)"
proof (induction ps arbitrary: i m a)
  case Nil
  then show ?case by simp
next
  case (Cons p ps)
  show ?case
  proof (cases "m < p")
    case True
    show ?thesis
    proof (cases "\<exists>x \<in> set ps. p < x")
      case True
      from Cons.IH [OF True, of "Suc i" "int i"] obtain k where k: "k < length ps"
        "argmax_loop ps (Suc i) p (int i) = int (Suc i + k)" "p < ps ! k"
        "\<forall>j < length ps. ps ! j \<le> ps ! k" "\<forall>j < k. ps ! j < ps ! k"
        by blast
      have "\<forall>j < length (p # ps). (p # ps) ! j \<le> (p # ps) ! Suc k"
        using k by (auto simp: nth_Cons split: nat.splits)
      moreover have "\<forall>j < Suc k. (p # ps) ! j < (p # ps) ! Suc k"
        using k by (auto simp: nth_Cons split: nat.splits)
      ultimately show ?thesis
        using k \<open>m < p\<close> by (intro exI [of _ "Suc k"]) auto
    next
      case False
      then have le: "\<forall>x \<in> set ps. x \<le> p" by auto
      have "argmax_loop (p # ps) i m a = int i"
        using \<open>m < p\<close> argmax_loop_keep [OF le] by simp
      moreover have "\<forall>j < length (p # ps). (p # ps) ! j \<le> p"
        using le by (auto simp: nth_Cons split: nat.splits)
      ultimately show ?thesis
        using \<open>m < p\<close> by (intro exI [of _ 0]) auto
    qed
  next
    case False
    with Cons.prems have ex: "\<exists>x \<in> set ps. m < x" by auto
    from Cons.IH [OF ex, of "Suc i" a] obtain k where k: "k < length ps"
      "argmax_loop ps (Suc i) m a = int (Suc i + k)" "m < ps ! k"
      "\<forall>j < length ps. ps ! j \<le> ps ! k" "\<forall>j < k. ps ! j < ps ! k"
      by blast
    have "\<forall>j < length (p # ps). (p # ps) ! j \<le> (p # ps) ! Suc k"
      using k False by (auto simp: nth_Cons split: nat.splits)
    moreover have "\<forall>j < Suc k. (p # ps) ! j < (p # ps) ! Suc k"
      using k False by (auto simp: nth_Cons split: nat.splits)
    ultimately show ?thesis
      using k False by (intro exI [of _ "Suc k"]) auto
  qed
qed

lemma one_hot_at: "k < n \<Longrightarrow> one_hot n (int k) = (replicate n 0)[k := 1]"
  by (rule nth_equalityI) (auto simp: one_hot_def nth_list_update)

lemma one_hot_none: "one_hot n (- 1) = replicate n 0"
  by (rule nth_equalityI) (auto simp: one_hot_def)

lemma distribution_has_positive:
  assumes "is_distribution row"
  shows "\<exists>x \<in> set row. 0 < x"
proof (rule ccontr)
  assume "\<not> (\<exists>x \<in> set row. 0 < x)"
  then have "\<forall>x \<in> set row. x \<le> 0" by auto
  then have "sum_list row \<le> 0" by (induction row) auto
  with assms show False by (simp add: is_distribution_def)
qed

lemma alloc_then_write:
  assumes "output_ready (length new) unit_offset output_prob_dist"
  shows "\<exists>opd. alloc_output (length new) unit_offset output_prob_dist = Inr opd \<and>
           write_output new unit_offset opd =
             Inr (map_option (\<lambda>v. v[unit_offset := Some new]) output_prob_dist)"
  using assms
  by (auto simp: output_ready_def alloc_output_def write_output_def split: option.splits)

text \<open>
  Claim C6. For a distribution row, \<open>SampleTopPFromProb\<close> with \<open>top_p = 0\<close> returns
  the probability 1 and the index \<open>k\<close> of the maximum of the row, the lowest such index
  when the maximum occurs more than once; the scratch vector is untouched, and when an
  output vector is given (with a slot that is undefined or of the row's width) the slot
  of the row becomes the one-hot vector at \<open>k\<close>.
\<close>

theorem top_p_zero_is_first_argmax:
  assumes "unit_offset < length prob"
    and "is_distribution (prob ! unit_offset)"
    and "output_ready (length (prob ! unit_offset)) unit_offset output_prob_dist"
  shows "\<exists>k < length (prob ! unit_offset).
           (\<forall>j < length (prob ! unit_offset). prob ! unit_offset ! j \<le> prob ! unit_offset ! k) \<and>
           (\<forall>j < k. prob ! unit_offset ! j < prob ! unit_offset ! k) \<and>
           SampleTopPFromProb std_sort data0 prob unit_offset 0 uniform_sample output_prob_dist =
             Inr \<lparr>result = (1, int k),
                  out_dist = map_option
                    (\<lambda>v. v[unit_offset := Some ((replicate (length (prob ! unit_offset)) 0)[k := 1])])
                    output_prob_dist,
                  scratch = data0\<rparr>"
proof -
  let ?row = "prob ! unit_offset"
  from distribution_has_positive [OF assms(2)] have "\<exists>x \<in> set ?row. 0 < x" .
  from argmax_loop_first_max [OF this, of 0 "- 1"] obtain k where k: "k < length ?row"
    "argmax_loop ?row 0 0 (- 1) = int k"
    "\<forall>j < length ?row. ?row ! j \<le> ?row ! k" "\<forall>j < k. ?row ! j < ?row ! k"
    by auto
  from alloc_then_write [of "one_hot (length ?row) (int k)" unit_offset output_prob_dist] assms(3)
  obtain opd where opd: "alloc_output (length ?row) unit_offset output_prob_dist = Inr opd"
    "write_output (one_hot (length ?row) (int k)) unit_offset opd =
       Inr (map_option (\<lambda>v. v[unit_offset := Some (one_hot (length ?row) (int k))]) output_prob_dist)"
    by (auto simp: one_hot_def)
  have "SampleTopPFromProb std_sort data0 prob unit_offset 0 uniform_sample output_prob_dist =
     Inr \<lparr>result = (1, int k),
          out_dist = map_option (\<lambda>v. v[unit_offset := Some ((replicate (length ?row) 0)[k := 1])])
             output_prob_dist,
          scratch = data0\<rparr>"
    using assms(1) k(1,2) opd by (simp add: SampleTopPFromProb_def one_hot_at)
  with k show ?thesis by blast
qed

text \<open>
  The theorem at the row \<open>[1/4, 3/8, 3/8]\<close>, whose maximum occurs at the indices 1 and
  2: the call returns index 1 and writes \<open>[0, 1, 0]\<close>.
\<close>

theorem top_p_zero_is_first_argmax_witness:
  "is_distribution ([[1/4, 3/8, 3/8]] ! 0) \<and>
   output_ready (length ([[1/4, 3/8, 3/8 :: real]] ! 0)) 0 (Some [None]) \<and>
   (\<exists>k < length ([[1/4, 3/8, 3/8 :: real]] ! 0).
      (\<forall>j < length ([[1/4, 3/8, 3/8 :: real]] ! 0).
          [[1/4, 3/8, 3/8 :: real]] ! 0 ! j \<le> [[1/4, 3/8, 3/8]] ! 0 ! k) \<and>
      (\<forall>j < k. [[1/4, 3/8, 3/8 :: real]] ! 0 ! j < [[1/4, 3/8, 3/8]] ! 0 ! k) \<and>
      SampleTopPFromProb insertion_sort_desc [] [[1/4, 3/8, 3/8]] 0 0 (1/2) (Some [None]) =
        Inr \<lparr>result = (1, int k),
             out_dist = map_option
               (\<lambda>v. v[0 := Some ((replicate (length ([[1/4, 3/8, 3/8 :: real]] ! 0)) 0)[k := 1])])
               (Some [None]),
             scratch = []\<rparr>) \<and>
   SampleTopPFromProb insertion_sort_desc [] [[1/4, 3/8, 3/8]] 0 0 (1/2) (Some [None]) =
     Inr \<lparr>result = (1, 1), out_dist = Some [Some [0, 1, 0]], scratch = []\<rparr>"
proof -
  have d: "is_distribution ([[1/4, 3/8, 3/8]] ! 0)"
    by (simp add: is_distribution_def)
  have r: "output_ready (length ([[1/4, 3/8, 3/8 :: real]] ! 0)) 0 (Some [None])"
    by (simp add: output_ready_def)
  have e: "SampleTopPFromProb insertion_sort_desc [] [[1/4, 3/8, 3/8]] 0 0 (1/2) (Some [None]) =
             Inr \<lparr>result = (1, 1), out_dist = Some [Some [0, 1, 0]], scratch = []\<rparr>"
    by (simp add: SampleTopPFromProb_def alloc_output_def write_output_def one_hot_def upt_rec)
  from top_p_zero_is_first_argmax [OF _ d r, of insertion_sort_desc "[]" "1/2"] d r e
  show ?thesis by simp
qed

text \<open>
  Claim C10. When no element of the row is positive, \<open>SampleTopPFromProb\<close> with
  \<open>top_p = 0\<close> returns the probability 1 with the index -1, which is no index of the
  row, and the slot of the row in a given output vector becomes all zeros.
\<close>

theorem top_p_zero_without_positive_element:
  assumes "unit_offset < length prob"
    and "\<forall>x \<in> set (prob ! unit_offset). x \<le> 0"
    and "output_ready (length (prob ! unit_offset)) unit_offset output_prob_dist"
  shows "SampleTopPFromProb std_sort data0 prob unit_offset 0 uniform_sample output_prob_dist =
           Inr \<lparr>result = (1, - 1),
                out_dist = map_option
                  (\<lambda>v. v[unit_offset := Some (replicate (length (prob ! unit_offset)) 0)])
                  output_prob_dist,
                scratch = data0\<rparr>"
proof -
  let ?row = "prob ! unit_offset"
  have a: "argmax_loop ?row 0 0 (- 1) = - 1"
    using assms(2) by (rule argmax_loop_keep)
  from alloc_then_write [of "one_hot (length ?row) (- 1)" unit_offset output_prob_dist] assms(3)
  obtain opd where opd: "alloc_output (length ?row) unit_offset output_prob_dist = Inr opd"
    "write_output (one_hot (length ?row) (- 1)) unit_offset opd =
       Inr (map_option (\<lambda>v. v[unit_offset := Some (one_hot (length ?row) (- 1))]) output_prob_dist)"
    by (auto simp: one_hot_def)
  show ?thesis
    using assms(1) a opd by (simp add: SampleTopPFromProb_def one_hot_none)
qed

text \<open>The theorem at the all-zero row of width 3.\<close>

theorem top_p_zero_without_positive_element_witness:
  "(0::nat) < length [[0, 0, 0 :: real]] \<and>
   list_all (\<lambda>x. x \<le> 0) ([[0, 0, 0 :: real]] ! 0) \<and>
   output_ready (length ([[0, 0, 0 :: real]] ! 0)) 0 (Some [None]) \<and>
   SampleTopPFromProb insertion_sort_desc [] [[0, 0, 0]] 0 0 (1/2) (Some [None]) =
     Inr \<lparr>result = (1, - 1), out_dist = Some [Some [0, 0, 0]], scratch = []\<rparr>"
proof -
  have r: "output_ready (length ([[0, 0, 0 :: real]] ! 0)) 0 (Some [None])"
    by (simp add: output_ready_def)
  have z: "\<forall>x \<in> set ([[0, 0, 0 :: real]] ! 0). x \<le> 0"
    by simp
  from top_p_zero_without_positive_element [OF _ z r, of insertion_sort_desc "[]" "1/2"] r
  show ?thesis by (simp add: numeral_3_eq_3)
qed

subsection \<open>The host buffer\<close>

lemma double_until_result:
  assumes "0 < a" and "n \<le> 2 ^ 62"
  shows "\<exists>k. double_until a n = Some (Inr (a * 2 ^ k)) \<and> n \<le> a * 2 ^ k \<and>
              (\<forall>j < k. a * 2 ^ j < n)"
  using assms
proof (induction "nat (n - a)" arbitrary: a rule: less_induct)
  case less
  show ?case
  proof (cases "a < n")
    case False
    then have "double_until a n = Some (Inr (a * 2 ^ 0))"
      by (subst double_until.simps) simp
    with False show ?thesis
      by (intro exI [of _ 0]) auto
  next
    case True
    have no_ov: "\<not> (a * 2 > 2 ^ 63 - 1 \<or> a * 2 < - (2 ^ 63))"
      using True less.prems by auto
    have "nat (n - a * 2) < nat (n - a)"
      using True less.prems by auto
    from less.hyps [OF this] less.prems obtain k where k:
      "double_until (a * 2) n = Some (Inr (a * 2 * 2 ^ k))" "n \<le> a * 2 * 2 ^ k"
      "\<forall>j < k. a * 2 * 2 ^ j < n"
      by auto
    have "double_until a n = double_until (a * 2) n"
      using True no_ov by (subst double_until.simps) auto
    with k(1) have r: "double_until a n = Some (Inr (a * 2 ^ Suc k))"
      by (simp add: mult.assoc)
    have "\<forall>j < Suc k. a * 2 ^ j < n"
    proof (intro allI impI)
      fix j assume "j < Suc k"
      show "a * 2 ^ j < n"
      proof (cases j)
        case 0
        with True show ?thesis by simp
      next
        case (Suc j')
        with \<open>j < Suc k\<close> k(3) have "a * 2 * 2 ^ j' < n" by auto
        with Suc show ?thesis by (simp add: mult.assoc)
      qed
    qed
    with r k(2) show ?thesis
      by (intro exI [of _ "Suc k"]) (auto simp: mult.assoc)
  qed
qed

text \<open>One successful call from an allocation of \<open>32 * 2 ^ k\<close> rows.\<close>

lemma CopyProbsToCPU_grows:
  assumes "device_type d \<noteq> kDLCPU"
    and "probs_host_shape this = Some (32 * 2 ^ k, int (shape1 d))"
    and "int (length (tensor_rows d)) \<le> 2 ^ 62"
  shows "\<exists>j. CopyProbsToCPU this d =
               Some (Inr (tensor_rows d,
                          this\<lparr>probs_host_shape := Some (32 * 2 ^ (k + j), int (shape1 d))\<rparr>)) \<and>
             int (length (tensor_rows d)) \<le> 32 * 2 ^ (k + j) \<and>
             (\<forall>i < j. 32 * 2 ^ (k + i) < int (length (tensor_rows d)))"
proof -
  let ?n = "int (length (tensor_rows d))"
  have "0 < (32 :: int) * 2 ^ k" by simp
  from double_until_result [OF this assms(3)] obtain j where j:
    "double_until (32 * 2 ^ k) ?n = Some (Inr (32 * 2 ^ k * 2 ^ j))" "?n \<le> 32 * 2 ^ k * 2 ^ j"
    "\<forall>i < j. 32 * 2 ^ k * 2 ^ i < ?n"
    by blast
  have e: "(32 :: int) * 2 ^ k * 2 ^ i = 32 * 2 ^ (k + i)" for i
    by (simp add: power_add)
  have same: "(32 :: int) * 2 ^ (k + j) = 32 * 2 ^ k \<Longrightarrow>
     this\<lparr>probs_host_shape := Some (32 * 2 ^ (k + j), int (shape1 d))\<rparr> = this"
    using assms(2) by simp
  show ?thesis
    using assms(1,2) j same unfolding e
    by (intro exI [of _ j]) (auto simp: CopyProbsToCPU_def Let_def)
qed

lemma CopyProbsToCPU_first:
  assumes "device_type d \<noteq> kDLCPU"
    and "probs_host_shape this = None"
    and "int (length (tensor_rows d)) \<le> 2 ^ 62"
  shows "\<exists>j. CopyProbsToCPU this d =
               Some (Inr (tensor_rows d,
                          this\<lparr>probs_host_shape := Some (32 * 2 ^ j, int (shape1 d))\<rparr>)) \<and>
             int (length (tensor_rows d)) \<le> 32 * 2 ^ j \<and>
             (\<forall>i < j. 32 * 2 ^ i < int (length (tensor_rows d)))"
proof -
  let ?n = "int (length (tensor_rows d))"
  from double_until_result [of 32 ?n] assms(3) obtain j where j:
    "double_until 32 ?n = Some (Inr (32 * 2 ^ j))" "?n \<le> 32 * 2 ^ j"
    "\<forall>i < j. 32 * 2 ^ i < ?n"
    by auto
  show ?thesis
    using assms(1,2) j
    by (intro exI [of _ j]) (auto simp: CopyProbsToCPU_def Let_def)
qed

lemma CopyProbsToCPU_host_input:
  "device_type d = kDLCPU \<Longrightarrow> CopyProbsToCPU this d = Some (Inl Fatal)"
  by (simp add: CopyProbsToCPU_def)

lemma CopyProbsToCPU_width_changed:
  "device_type d \<noteq> kDLCPU \<Longrightarrow> probs_host_shape this = Some (r, v) \<Longrightarrow> v \<noteq> int (shape1 d)
     \<Longrightarrow> CopyProbsToCPU this d = Some (Inl Fatal)"
  by (simp add: CopyProbsToCPU_def)

lemma copy_calls_from_allocation:
  assumes "\<forall>d \<in> set ds. usable v d"
    and "probs_host_shape this = Some (32 * 2 ^ k, int v)"
  shows "\<exists>j. copy_calls this ds = Some (Inr (this\<lparr>probs_host_shape := Some (32 * 2 ^ (k + j), int v)\<rparr>)) \<and>
             (\<forall>d \<in> set ds. int (length (tensor_rows d)) \<le> 32 * 2 ^ (k + j)) \<and>
             (\<forall>i < j. \<exists>d \<in> set ds. 32 * 2 ^ (k + i) < int (length (tensor_rows d)))"
  using assms
proof (induction ds arbitrary: this k)
  case Nil
  then show ?case by (intro exI [of _ 0]) simp
next
  case (Cons d ds)
  from Cons.prems have u: "device_type d \<noteq> kDLCPU" "shape1 d = v"
    "int (length (tensor_rows d)) \<le> 2 ^ 62"
    by (auto simp: usable_def)
  from CopyProbsToCPU_grows [OF u(1) _ u(3), of this k] Cons.prems(2) u(2)
  obtain j where j: "CopyProbsToCPU this d =
      Some (Inr (tensor_rows d, this\<lparr>probs_host_shape := Some (32 * 2 ^ (k + j), int v)\<rparr>))"
    "int (length (tensor_rows d)) \<le> 32 * 2 ^ (k + j)"
    "\<forall>i < j. 32 * 2 ^ (k + i) < int (length (tensor_rows d))"
    by auto
  let ?this' = "this\<lparr>probs_host_shape := Some (32 * 2 ^ (k + j), int v)\<rparr>"
  from Cons.IH [of ?this' "k + j"] Cons.prems(1)
  obtain j' where j': "copy_calls ?this' ds =
      Some (Inr (?this'\<lparr>probs_host_shape := Some (32 * 2 ^ (k + j + j'), int v)\<rparr>))"
    "\<forall>d \<in> set ds. int (length (tensor_rows d)) \<le> 32 * 2 ^ (k + j + j')"
    "\<forall>i < j'. \<exists>d \<in> set ds. 32 * 2 ^ (k + j + i) < int (length (tensor_rows d))"
    by auto
  have mono: "(32 :: int) * 2 ^ (k + j) \<le> 32 * 2 ^ (k + (j + j'))"
    by simp
  have 1: "copy_calls this (d # ds) =
      Some (Inr (this\<lparr>probs_host_shape := Some (32 * 2 ^ (k + (j + j')), int v)\<rparr>))"
    using j(1) j'(1) by (simp add: add.assoc)
  have 2: "\<forall>d' \<in> set (d # ds). int (length (tensor_rows d')) \<le> 32 * 2 ^ (k + (j + j'))"
  proof
    fix d' assume "d' \<in> set (d # ds)"
    then consider "d' = d" | "d' \<in> set ds" by auto
    then show "int (length (tensor_rows d')) \<le> 32 * 2 ^ (k + (j + j'))"
    proof cases
      case 1
      from j(2) mono have "int (length (tensor_rows d)) \<le> 32 * 2 ^ (k + (j + j'))"
        by (rule order_trans)
      with 1 show ?thesis by simp
    next
      case 2
      with j'(2) show ?thesis by (simp add: add.assoc)
    qed
  qed
  have 3: "\<forall>i < j + j'. \<exists>d' \<in> set (d # ds). 32 * 2 ^ (k + i) < int (length (tensor_rows d'))"
  proof (intro allI impI)
    fix i assume i: "i < j + j'"
    show "\<exists>d' \<in> set (d # ds). 32 * 2 ^ (k + i) < int (length (tensor_rows d'))"
    proof (cases "i < j")
      case True
      with j(3) show ?thesis by auto
    next
      case False
      then have "i - j < j'" "k + j + (i - j) = k + i" using i by auto
      with j'(3) show ?thesis by (metis list.set_intros(2))
    qed
  qed
  from 1 2 3 show ?case by blast
qed

text \<open>
  Claim C3, as the code has it. (1) A sequence of calls from a new sampler, with
  tensors of one width \<open>v\<close> that are not on the host, succeeds and leaves an allocation
  of \<open>32 * 2^k\<close> rows that covers every row count of the sequence, with the least such
  \<open>k\<close>: every smaller power was exceeded by some call. (2) One such call on an
  allocation of \<open>32 * 2^k\<close> rows leaves \<open>32 * 2^(k+j)\<close> rows, so the row count never
  shrinks and grows by doubling only until it covers the rows of the call. (3) A
  tensor whose width differs from the allocation's fails the check of line 334: the
  call is fatal, the buffer is not rebuilt.
\<close>

theorem host_buffer_capacity:
  "(ds \<noteq> [] \<and> (\<forall>d \<in> set ds. usable v d) \<longrightarrow>
      (\<exists>k. copy_calls \<lparr>probs_host_shape = None\<rparr> ds =
              Some (Inr \<lparr>probs_host_shape = Some (32 * 2 ^ k, int v)\<rparr>) \<and>
           (\<forall>d \<in> set ds. int (length (tensor_rows d)) \<le> 32 * 2 ^ k) \<and>
           (\<forall>i < k. \<exists>d \<in> set ds. 32 * 2 ^ i < int (length (tensor_rows d))))) \<and>
   (usable v d \<and> probs_host_shape this = Some (32 * 2 ^ k, int v) \<longrightarrow>
      (\<exists>j. CopyProbsToCPU this d =
              Some (Inr (tensor_rows d, this\<lparr>probs_host_shape := Some (32 * 2 ^ (k + j), int v)\<rparr>)) \<and>
           int (length (tensor_rows d)) \<le> 32 * 2 ^ (k + j) \<and>
           (\<forall>i < j. 32 * 2 ^ (k + i) < int (length (tensor_rows d))))) \<and>
   (device_type d' \<noteq> kDLCPU \<and> probs_host_shape this' = Some (r, v') \<and> v' \<noteq> int (shape1 d') \<longrightarrow>
      CopyProbsToCPU this' d' = Some (Inl Fatal))"
proof (intro conjI impI)
  assume a: "ds \<noteq> [] \<and> (\<forall>d \<in> set ds. usable v d)"
  then obtain d0 ds0 where ds: "ds = d0 # ds0" by (cases ds) auto
  with a have u: "device_type d0 \<noteq> kDLCPU" "shape1 d0 = v"
    "int (length (tensor_rows d0)) \<le> 2 ^ 62" and rest: "\<forall>d \<in> set ds0. usable v d"
    by (auto simp: usable_def)
  let ?init = "\<lparr>probs_host_shape = None\<rparr>"
  from CopyProbsToCPU_first [OF u(1) _ u(3), of ?init] u(2)
  obtain j where j: "CopyProbsToCPU ?init d0 =
      Some (Inr (tensor_rows d0, \<lparr>probs_host_shape = Some (32 * 2 ^ j, int v)\<rparr>))"
    "int (length (tensor_rows d0)) \<le> 32 * 2 ^ j"
    "\<forall>i < j. 32 * 2 ^ i < int (length (tensor_rows d0))"
    by auto
  let ?this = "\<lparr>probs_host_shape = Some (32 * 2 ^ j, int v)\<rparr>"
  from copy_calls_from_allocation [OF rest, of ?this j]
  obtain j' where j': "copy_calls ?this ds0 =
      Some (Inr \<lparr>probs_host_shape = Some (32 * 2 ^ (j + j'), int v)\<rparr>)"
    "\<forall>d \<in> set ds0. int (length (tensor_rows d)) \<le> 32 * 2 ^ (j + j')"
    "\<forall>i < j'. \<exists>d \<in> set ds0. 32 * 2 ^ (j + i) < int (length (tensor_rows d))"
    by auto
  have mono: "(32 :: int) * 2 ^ j \<le> 32 * 2 ^ (j + j')"
    by simp
  have 1: "copy_calls ?init ds = Some (Inr \<lparr>probs_host_shape = Some (32 * 2 ^ (j + j'), int v)\<rparr>)"
    using j(1) j'(1) ds by simp
  have "int (length (tensor_rows d0)) \<le> 32 * 2 ^ (j + j')"
    using j(2) mono by (rule order_trans)
  with j'(2) have 2: "\<forall>d \<in> set ds. int (length (tensor_rows d)) \<le> 32 * 2 ^ (j + j')"
    using ds by simp
  have 3: "\<forall>i < j + j'. \<exists>d \<in> set ds. 32 * 2 ^ i < int (length (tensor_rows d))"
  proof (intro allI impI)
    fix i assume i: "i < j + j'"
    show "\<exists>d \<in> set ds. 32 * 2 ^ i < int (length (tensor_rows d))"
    proof (cases "i < j")
      case True
      with j(3) ds show ?thesis by auto
    next
      case False
      then have "i - j < j'" "j + (i - j) = i" using i by auto
      with j'(3) ds show ?thesis by (metis list.set_intros(2))
    qed
  qed
  from 1 2 3
  show "\<exists>k. copy_calls ?init ds = Some (Inr \<lparr>probs_host_shape = Some (32 * 2 ^ k, int v)\<rparr>) \<and>
           (\<forall>d \<in> set ds. int (length (tensor_rows d)) \<le> 32 * 2 ^ k) \<and>
           (\<forall>i < k. \<exists>d \<in> set ds. 32 * 2 ^ i < int (length (tensor_rows d)))"
    by blast
next
  assume "usable v d \<and> probs_host_shape this = Some (32 * 2 ^ k, int v)"
  then show "\<exists>j. CopyProbsToCPU this d =
              Some (Inr (tensor_rows d, this\<lparr>probs_host_shape := Some (32 * 2 ^ (k + j), int v)\<rparr>)) \<and>
           int (length (tensor_rows d)) \<le> 32 * 2 ^ (k + j) \<and>
           (\<forall>i < j. 32 * 2 ^ (k + i) < int (length (tensor_rows d)))"
    using CopyProbsToCPU_grows [of d this k] by (auto simp: usable_def)
next
  assume "device_type d' \<noteq> kDLCPU \<and> probs_host_shape this' = Some (r, v') \<and> v' \<noteq> int (shape1 d')"
  then show "CopyProbsToCPU this' d' = Some (Inl Fatal)"
    using CopyProbsToCPU_width_changed by blast
qed

text \<open>
  The theorem at the calls with 10, 40 and 20 rows of width 3, which leave 64 rows; at
  a call with 40 rows on an allocation of 32 rows; and at a call of width 4 on an
  allocation of width 3.
\<close>

theorem host_buffer_capacity_witness:
  "usable 3 \<lparr>device_type = kDLAccelerator, shape1 = 3, tensor_rows = replicate 10 [1/2, 1/4, 1/4]\<rparr> \<and>
   usable 3 \<lparr>device_type = kDLAccelerator, shape1 = 3, tensor_rows = replicate 40 [1/2, 1/4, 1/4]\<rparr> \<and>
   usable 3 \<lparr>device_type = kDLAccelerator, shape1 = 3, tensor_rows = replicate 20 [1/2, 1/4, 1/4]\<rparr> \<and>
   copy_calls \<lparr>probs_host_shape = None\<rparr>
     [\<lparr>device_type = kDLAccelerator, shape1 = 3, tensor_rows = replicate 10 [1/2, 1/4, 1/4]\<rparr>,
      \<lparr>device_type = kDLAccelerator, shape1 = 3, tensor_rows = replicate 40 [1/2, 1/4, 1/4]\<rparr>,
      \<lparr>device_type = kDLAccelerator, shape1 = 3, tensor_rows = replicate 20 [1/2, 1/4, 1/4]\<rparr>] =
     Some (Inr \<lparr>probs_host_shape = Some (64, 3)\<rparr>) \<and>
   (\<exists>j. CopyProbsToCPU \<lparr>probs_host_shape = Some (32 * 2 ^ 0, int 3)\<rparr>
          \<lparr>device_type = kDLAccelerator, shape1 = 3, tensor_rows = replicate 40 [1/2, 1/4, 1/4]\<rparr> =
        Some (Inr (replicate 40 [1/2, 1/4, 1/4],
                   \<lparr>probs_host_shape = Some (32 * 2 ^ (0 + j), int 3)\<rparr>)) \<and>
        (40 :: int) \<le> 32 * 2 ^ (0 + j) \<and> (\<forall>i < j. (32 :: int) * 2 ^ (0 + i) < 40)) \<and>
   CopyProbsToCPU \<lparr>probs_host_shape = Some (32, 3)\<rparr>
     \<lparr>device_type = kDLAccelerator, shape1 = 4, tensor_rows = replicate 10 [1/4, 1/4, 1/4, 1/4]\<rparr> =
     Some (Inl Fatal)"
proof -
  let ?t10 = "\<lparr>device_type = kDLAccelerator, shape1 = 3, tensor_rows = replicate 10 [1/2, 1/4, 1/4 :: real]\<rparr>"
  let ?t40 = "\<lparr>device_type = kDLAccelerator, shape1 = 3, tensor_rows = replicate 40 [1/2, 1/4, 1/4 :: real]\<rparr>"
  let ?t20 = "\<lparr>device_type = kDLAccelerator, shape1 = 3, tensor_rows = replicate 20 [1/2, 1/4, 1/4 :: real]\<rparr>"
  let ?w4 = "\<lparr>device_type = kDLAccelerator, shape1 = 4,
              tensor_rows = replicate 10 [1/4, 1/4, 1/4, 1/4 :: real]\<rparr>"
  have u: "usable 3 ?t10" "usable 3 ?t40" "usable 3 ?t20"
    by (simp_all add: usable_def)
  have e: "copy_calls \<lparr>probs_host_shape = None\<rparr> [?t10, ?t40, ?t20] =
             Some (Inr \<lparr>probs_host_shape = Some (64, 3)\<rparr>)"
    by (simp add: CopyProbsToCPU_def double_until.simps)
  from host_buffer_capacity
    [of "[?t10, ?t40, ?t20]" 3 ?t40 "\<lparr>probs_host_shape = Some (32 * 2 ^ 0, int 3)\<rparr>" 0
        ?w4 "\<lparr>probs_host_shape = Some (32, 3)\<rparr>" 32 3] u e
  show ?thesis by simp
qed

text \<open>
  Against claim C3 as stated: after a call of width 3, a call of width 4 is not served
  from a rebuilt buffer, it is fatal.
\<close>

theorem width_change_counterexample:
  "copy_calls \<lparr>probs_host_shape = None\<rparr>
     [\<lparr>device_type = kDLAccelerator, shape1 = 3, tensor_rows = replicate 10 [1/2, 1/4, 1/4]\<rparr>,
      \<lparr>device_type = kDLAccelerator, shape1 = 4, tensor_rows = replicate 10 [1/4, 1/4, 1/4, 1/4]\<rparr>] =
     Some (Inl Fatal)"
  by (simp add: CopyProbsToCPU_def double_until.simps)

subsection \<open>The residency of the input\<close>

text \<open>
  Claim C9, as the code has it. Both batch entry points pass their input to
  \<open>CopyProbsToCPU\<close>, whose first check (line 332) demands a tensor that is not on the
  host: with a host-resident input both calls are fatal, whatever the other arguments
  are. A tensor on another device is copied: a new sampler returns its rows.
\<close>

theorem host_resident_input_is_fatal:
  "(device_type probs_device = kDLCPU \<longrightarrow>
      BatchSampleTokens std_sort sched scratch0 this probs_device request_ids cfgs rngs
          output_prob_dist output_token_probs = Some (Inl Fatal) \<and>
      BatchVerifyDraftTokens std_sort sched' scratch0' this' probs_device a request_mstates rngs' =
          Some (Inl Fatal)) \<and>
   (device_type d \<noteq> kDLCPU \<and> probs_host_shape sampler = None
       \<and> int (length (tensor_rows d)) \<le> 2 ^ 62 \<longrightarrow>
      (\<exists>sampler'. CopyProbsToCPU sampler d = Some (Inr (tensor_rows d, sampler'))))"
proof (intro conjI impI)
  assume h: "device_type probs_device = kDLCPU"
  then show "BatchSampleTokens std_sort sched scratch0 this probs_device request_ids cfgs rngs
          output_prob_dist output_token_probs = Some (Inl Fatal)"
    by (simp add: BatchSampleTokens_def CopyProbsToCPU_host_input)
  from h show "BatchVerifyDraftTokens std_sort sched' scratch0' this' probs_device a
          request_mstates rngs' = Some (Inl Fatal)"
    by (simp add: BatchVerifyDraftTokens_def CopyProbsToCPU_host_input)
next
  assume "device_type d \<noteq> kDLCPU \<and> probs_host_shape sampler = None
       \<and> int (length (tensor_rows d)) \<le> 2 ^ 62"
  then show "\<exists>sampler'. CopyProbsToCPU sampler d = Some (Inr (tensor_rows d, sampler'))"
    using CopyProbsToCPU_first [of d sampler] by blast
qed

text \<open>The theorem at a host tensor of one row and at a tensor on an accelerator.\<close>

theorem host_resident_input_is_fatal_witness:
  "BatchSampleTokens insertion_sort_desc [(0, 0)] (\<lambda>w. []) \<lparr>probs_host_shape = None\<rparr>
      \<lparr>device_type = kDLCPU, shape1 = 3, tensor_rows = [[1/4, 1/2, 1/4]]\<rparr> [''request'']
      [\<lparr>cfg_temperature = 1, cfg_top_p = 1\<rparr>] [\<lparr>draws = (\<lambda>n. 1/2), consumed = 0\<rparr>]
      None None = Some (Inl Fatal) \<and>
   BatchVerifyDraftTokens insertion_sort_desc [(0, 0)] (\<lambda>w. []) \<lparr>probs_host_shape = None\<rparr>
      \<lparr>device_type = kDLCPU, shape1 = 3, tensor_rows = [[1/4, 1/2, 1/4]]\<rparr>
      \<lparr>cum_verify_lengths = [0, 1], generation_cfg = [\<lparr>cfg_temperature = 1, cfg_top_p = 1\<rparr>],
       draft_output_tokens = [[1]], draft_output_token_prob = [[1/2]],
       draft_output_prob_dist = [[[1/4, 1/2, 1/4]]]\<rparr>
      [[]] [\<lparr>draws = (\<lambda>n. 1/2), consumed = 0\<rparr>] = Some (Inl Fatal) \<and>
   (\<exists>sampler'. CopyProbsToCPU \<lparr>probs_host_shape = None\<rparr>
        \<lparr>device_type = kDLAccelerator, shape1 = 2, tensor_rows = [[1/2, 1/2]]\<rparr> =
      Some (Inr (tensor_rows \<lparr>device_type = kDLAccelerator, shape1 = 2, tensor_rows = [[1/2, 1/2]]\<rparr>,
                 sampler')))"
  using host_resident_input_is_fatal
    [of "\<lparr>device_type = kDLCPU, shape1 = 3, tensor_rows = [[1/4, 1/2, 1/4]]\<rparr>"
        insertion_sort_desc "[(0, 0)]" "\<lambda>w. []" "\<lparr>probs_host_shape = None\<rparr>" "[''request'']"
        "[\<lparr>cfg_temperature = 1, cfg_top_p = 1\<rparr>]" "[\<lparr>draws = (\<lambda>n. 1/2), consumed = 0\<rparr>]"
        None None "[(0, 0)]" "\<lambda>w. []" "\<lparr>probs_host_shape = None\<rparr>"
        "\<lparr>cum_verify_lengths = [0, 1], generation_cfg = [\<lparr>cfg_temperature = 1, cfg_top_p = 1\<rparr>],
          draft_output_tokens = [[1]], draft_output_token_prob = [[1/2]],
          draft_output_prob_dist = [[[1/4, 1/2, 1/4]]]\<rparr>"
        "[[]]" "[\<lparr>draws = (\<lambda>n. 1/2), consumed = 0\<rparr>]"
        "\<lparr>device_type = kDLAccelerator, shape1 = 2, tensor_rows = [[1/2, 1/2]]\<rparr>"
        "\<lparr>probs_host_shape = None\<rparr>"]
  by simp

text \<open>
  Against claim C9 as stated: a host-resident tensor with otherwise valid arguments is
  rejected by both entry points, while the same arguments with the tensor on an
  accelerator are served.
\<close>

theorem host_resident_input_counterexample:
  "BatchSampleTokens insertion_sort_desc [(0, 0)] (\<lambda>w. []) \<lparr>probs_host_shape = None\<rparr>
      \<lparr>device_type = kDLCPU, shape1 = 3, tensor_rows = [[1/4, 1/2, 1/4]]\<rparr> [''request'']
      [\<lparr>cfg_temperature = 1, cfg_top_p = 1\<rparr>] [\<lparr>draws = (\<lambda>n. 1/2), consumed = 0\<rparr>]
      None (Some []) = Some (Inl Fatal) \<and>
   map_option (map_sum id (\<lambda>r. (bs_tokens (fst r), bs_token_probs (fst r))))
     (BatchSampleTokens insertion_sort_desc [(0, 0)] (\<lambda>w. []) \<lparr>probs_host_shape = None\<rparr>
        \<lparr>device_type = kDLAccelerator, shape1 = 3, tensor_rows = [[1/4, 1/2, 1/4]]\<rparr> [''request'']
        [\<lparr>cfg_temperature = 1, cfg_top_p = 1\<rparr>] [\<lparr>draws = (\<lambda>n. 1/2), consumed = 0\<rparr>]
        None (Some [])) = Some (Inr ([1], Some [1/2])) \<and>
   BatchVerifyDraftTokens insertion_sort_desc [(0, 0)] (\<lambda>w. []) \<lparr>probs_host_shape = None\<rparr>
      \<lparr>device_type = kDLCPU, shape1 = 3, tensor_rows = [[1/4, 1/2, 1/4]]\<rparr>
      \<lparr>cum_verify_lengths = [0, 1], generation_cfg = [\<lparr>cfg_temperature = 1, cfg_top_p = 1\<rparr>],
       draft_output_tokens = [[1]], draft_output_token_prob = [[1/2]],
       draft_output_prob_dist = [[[1/4, 1/2, 1/4]]]\<rparr>
      [[]] [\<lparr>draws = (\<lambda>n. 1/2), consumed = 0\<rparr>] = Some (Inl Fatal) \<and>
   map_option (map_sum id (\<lambda>r. (vs_mstates (fst r), vs_accepted (fst r))))
     (BatchVerifyDraftTokens insertion_sort_desc [(0, 0)] (\<lambda>w. []) \<lparr>probs_host_shape = None\<rparr>
        \<lparr>device_type = kDLAccelerator, shape1 = 3, tensor_rows = [[1/4, 1/2, 1/4]]\<rparr>
        \<lparr>cum_verify_lengths = [0, 1], generation_cfg = [\<lparr>cfg_temperature = 1, cfg_top_p = 1\<rparr>],
         draft_output_tokens = [[1]], draft_output_token_prob = [[1/2]],
         draft_output_prob_dist = [[[1/4, 1/2, 1/4]]]\<rparr>
        [[]] [\<lparr>draws = (\<lambda>n. 1/2), consumed = 0\<rparr>]) = Some (Inr ([[1]], [[1]]))"
  by (simp add: BatchSampleTokens_def BatchVerifyDraftTokens_def CopyProbsToCPU_def
      double_until.simps sample_task_def verify_task_def verify_position_def commit_and_report_def
      CommitToken_def
      GetRandomNumber_def SampleTopPFromProb_def alloc_output_def copy_output_def one_def eps_def
      resize_def Let_def)

subsection \<open>The filter loop\<close>

lemma indexed_Nil [simp]: "indexed i [] = []"
  by (simp add: indexed_def)

lemma indexed_Cons [simp]: "indexed i (p # ps) = (p, int i) # indexed (Suc i) ps"
  by (simp add: indexed_def upt_rec)

lemma length_indexed [simp]: "length (indexed i ps) = length ps"
  by (simp add: indexed_def)








subsection \<open>The sort\<close>








subsection \<open>The candidates of the filter pass\<close>







subsection \<open>The passes of the nucleus path\<close>




















subsection \<open>The retry with cutoff 0\<close>







subsection \<open>The residual distribution\<close>







subsection \<open>One draft position\<close>







lemma verify_positions_break:
  "verify_position std_sort a w i verify_start cur_token_idx s = Inr (Break, s') \<Longrightarrow>
     verify_positions std_sort a w i verify_start cur_token_idx (Suc n) s = Inr s'"
  by simp

lemma verify_positions_continue:
  "verify_position std_sort a w i verify_start cur_token_idx s = Inr (Continue, s') \<Longrightarrow>
     verify_positions std_sort a w i verify_start cur_token_idx (Suc n) s =
       verify_positions std_sort a w i verify_start (Suc cur_token_idx) n s'"
  by simp

subsection \<open>Sampling from a distribution row succeeds\<close>









subsection \<open>What a rejection commits and what it reports\<close>



subsection \<open>The tasks of the batch sampler\<close>

lemma same_outcome_simps [simp]:
  "same_outcome ob (Inl e) (Inl e') = True"
  "same_outcome ob (Inl e) (Inr t) = False"
  "same_outcome ob (Inr s) (Inl e') = False"
  "same_outcome ob (Inr s) (Inr t) = (ob s = ob t)"
  by (simp_all add: same_outcome_def)



















end
